theory Spec2Isabelle
  imports Main "HOL-Library.Sublist" "HOL-Library.Char_ord" "HOL-Library.List_Lexorder"
begin

section \<open>Paths\<close>

text \<open>
  The build script \<^verbatim>\<open>build_docs.py\<close> works on \<^verbatim>\<open>pathlib\<close> paths. A path is modelled
  by its tuple of parts (\<^verbatim>\<open>Path.parts\<close>); all paths of the script are relative POSIX
  paths, so there is no root or drive. Python strings are modelled as \<^typ>\<open>string\<close>,
  a character standing for the code point of its number, from 0 to 255; texts with
  other code points are outside the model.
\<close>

type_synonym path = "string list"

datatype error =
  ValueError | IndexError | FileNotFoundError | IsADirectoryError | NotADirectoryError
  | UnicodeDecodeError

definition DOCS_DIR :: path where
  "DOCS_DIR = [''docs'']"

text \<open>\<^verbatim>\<open>sep.join(xs)\<close>.\<close>

fun str_join :: "string \<Rightarrow> string list \<Rightarrow> string" where
  "str_join sep [] = []"
| "str_join sep [x] = x"
| "str_join sep (x # y # xs) = x @ sep @ str_join sep (y # xs)"

text \<open>\<^verbatim>\<open>str(path)\<close>: the parts joined by a slash, and a dot for the empty path.\<close>

definition path_str :: "path \<Rightarrow> string" where
  "path_str p = (if p = [] then ''.'' else str_join ''/'' p)"

text \<open>\<^verbatim>\<open>path.name\<close>: the last part, the empty string for the empty path.\<close>

definition path_name :: "path \<Rightarrow> string" where
  "path_name p = (if p = [] then [] else last p)"

text \<open>\<^verbatim>\<open>path.parent\<close>: the path without its last part; the empty path is its own parent.\<close>

definition path_parent :: "path \<Rightarrow> path" where
  "path_parent p = butlast p"

text \<open>\<^verbatim>\<open>path.relative_to(base)\<close> raises \<^verbatim>\<open>ValueError\<close> unless \<open>base\<close> is a prefix.\<close>

definition relative_to :: "path \<Rightarrow> path \<Rightarrow> error + path" where
  "relative_to p base = (if prefix base p then Inr (drop (length base) p) else Inl ValueError)"

text \<open>
  \<^verbatim>\<open>str.rfind('.')\<close> as the number of characters before the last dot, if there is one.
\<close>

fun rfind_dot :: "string \<Rightarrow> nat option" where
  "rfind_dot [] = None"
| "rfind_dot (c # cs) =
     (case rfind_dot cs of
        Some i \<Rightarrow> Some (Suc i)
      | None \<Rightarrow> if c = CHR ''.'' then Some 0 else None)"

text \<open>
  \<^verbatim>\<open>path.suffix\<close>: the name from its last dot on, when that dot is neither the first
  nor the last character of the name; the empty string otherwise.
\<close>

definition name_suffix :: "string \<Rightarrow> string" where
  "name_suffix n =
     (case rfind_dot n of
        None \<Rightarrow> []
      | Some i \<Rightarrow> if 0 < i \<and> i < length n - 1 then drop i n else [])"

definition path_stem :: "path \<Rightarrow> string" where
  "path_stem p = (let n = path_name p in take (length n - length (name_suffix n)) n)"

text \<open>
  \<^verbatim>\<open>path.with_suffix(suffix)\<close> for a well-formed suffix: \<^verbatim>\<open>ValueError\<close> on an empty name,
  otherwise the old suffix (possibly empty) is cut off the name and the new one appended.
\<close>

definition with_suffix :: "path \<Rightarrow> string \<Rightarrow> error + path" where
  "with_suffix p sfx =
     (let n = path_name p in
      if n = [] then Inl ValueError
      else Inr (butlast p @ [take (length n - length (name_suffix n)) n @ sfx]))"

section \<open>Path Mapper\<close>

definition md_to_html_path :: "path \<Rightarrow> error + string" where
  "md_to_html_path md_path =
     (case relative_to md_path DOCS_DIR of
        Inl e \<Rightarrow> Inl e
      | Inr rel \<Rightarrow>
          if path_name rel = ''README.md'' then Inr (path_str (path_parent rel @ [''index.html'']))
          else (case with_suffix rel ''.html'' of
                  Inl e \<Rightarrow> Inl e
                | Inr q \<Rightarrow> Inr (path_str q)))"

section \<open>Title Extractor\<close>

definition newline :: char where
  "newline = CHR 0x0A"

text \<open>
  The characters that \<^verbatim>\<open>str.isspace\<close>, \<^verbatim>\<open>str.strip\<close> and the regular expression
  class \<^verbatim>\<open>\s\<close> take for whitespace, among the code points up to 255: tab, line feed,
  vertical tab, form feed, carriage return, the four separators \<^verbatim>\<open>0x1c\<close> to
  \<^verbatim>\<open>0x1f\<close>, space, next line (\<^verbatim>\<open>0x85\<close>) and no-break space (\<^verbatim>\<open>0xa0\<close>).
\<close>

definition is_space :: "char \<Rightarrow> bool" where
  "is_space c =
     (let n = (of_char c :: nat)
      in (9 \<le> n \<and> n \<le> 13) \<or> (28 \<le> n \<and> n \<le> 32) \<or> n = 133 \<or> n = 160)"

text \<open>
  The pattern \<^verbatim>\<open>^#\s+(.+)$\<close> under \<^verbatim>\<open>re.MULTILINE\<close>, tried where a line starts and the
  hash sign has been read; \<open>r\<close> is the text after the hash sign. \<^verbatim>\<open>\s+\<close> is greedy: it
  first takes the whole run of whitespace (which may cross line ends) and gives characters
  back one at a time, down to one. \<^verbatim>\<open>(.+)\<close> needs one character that is not a line
  feed and then runs to the end of its line, where \<^verbatim>\<open>$\<close> holds. \<open>heading_group k r\<close>
  tries \<^verbatim>\<open>\s+\<close> with \<open>k\<close> characters, then with fewer, and returns group 1.
\<close>

fun heading_group :: "nat \<Rightarrow> string \<Rightarrow> string option" where
  "heading_group 0 r = None"
| "heading_group (Suc k) r =
     (case drop (Suc k) r of
        [] \<Rightarrow> heading_group k r
      | c # _ \<Rightarrow>
          if c = newline then heading_group k r
          else Some (takeWhile (\<lambda>x. x \<noteq> newline) (drop (Suc k) r)))"

definition match_heading :: "string \<Rightarrow> string option" where
  "match_heading s =
     (case s of
        [] \<Rightarrow> None
      | c # r \<Rightarrow>
          if c = CHR ''#'' then heading_group (length (takeWhile is_space r)) r else None)"

text \<open>
  \<^verbatim>\<open>re.search\<close>: the leftmost position where the pattern matches. \<open>bol\<close> says
  whether the position is the start of the text or follows a line feed (\<^verbatim>\<open>^\<close>).
\<close>

fun search_heading :: "bool \<Rightarrow> string \<Rightarrow> string option" where
  "search_heading bol [] = None"
| "search_heading bol (c # cs) =
     (case (if bol then match_heading (c # cs) else None) of
        Some g \<Rightarrow> Some g
      | None \<Rightarrow> search_heading (c = newline) cs)"

definition py_strip :: "string \<Rightarrow> string" where
  "py_strip s = rev (dropWhile is_space (rev (dropWhile is_space s)))"

text \<open>
  The cased characters are the letters of the ASCII range; the case mapping of
  \<^verbatim>\<open>str.title()\<close> on other letters is outside the model.
\<close>

definition is_upper :: "char \<Rightarrow> bool" where
  "is_upper c = (let n = (of_char c :: nat) in 65 \<le> n \<and> n \<le> 90)"

definition is_lower :: "char \<Rightarrow> bool" where
  "is_lower c = (let n = (of_char c :: nat) in 97 \<le> n \<and> n \<le> 122)"

definition to_upper :: "char \<Rightarrow> char" where
  "to_upper c = (if is_lower c then char_of (of_char c - 32 :: nat) else c)"

definition to_lower :: "char \<Rightarrow> char" where
  "to_lower c = (if is_upper c then char_of (of_char c + 32 :: nat) else c)"

text \<open>
  \<^verbatim>\<open>str.title()\<close>: a cased character becomes upper case when the character before it
  is not cased, and lower case when it is. \<open>prev\<close> says whether the character before
  is cased.
\<close>

fun title_from :: "bool \<Rightarrow> string \<Rightarrow> string" where
  "title_from prev [] = []"
| "title_from prev (c # cs) =
     (if is_lower c then (if prev then c else to_upper c) # title_from True cs
      else if is_upper c then (if prev then to_lower c else c) # title_from True cs
      else c # title_from False cs)"

definition py_title :: "string \<Rightarrow> string" where
  "py_title s = title_from False s"

text \<open>\<^verbatim>\<open>s.replace(a, b)\<close> for single characters \<open>a\<close> and \<open>b\<close>.\<close>

definition replace_char :: "char \<Rightarrow> char \<Rightarrow> string \<Rightarrow> string" where
  "replace_char a b s = map (\<lambda>c. if c = a then b else c) s"

text \<open>The expression \<^verbatim>\<open>name.replace('-', ' ').replace('_', ' ').title()\<close>.\<close>

definition humanize :: "string \<Rightarrow> string" where
  "humanize name = py_title (replace_char CHR ''_'' CHR '' '' (replace_char CHR ''-'' CHR '' '' name))"

definition get_title_from_markdown :: "string \<Rightarrow> path \<Rightarrow> string" where
  "get_title_from_markdown content filepath =
     (case search_heading True content of
        Some g \<Rightarrow> py_strip g
      | None \<Rightarrow>
          (let name = path_stem filepath;
               name = (if name = ''README'' \<or> name = ''index''
                       then path_name (path_parent filepath) else name)
           in humanize name))"

section \<open>File system\<close>

text \<open>
  What the script reads from disk: a path names a file with its text, a file whose bytes
  are not UTF-8 text, a directory with the names of its entries (in the order the
  operating system lists them), or nothing.
\<close>

datatype node = File string | Undecodable | Dir "string list"

type_synonym filesystem = "path \<rightharpoonup> node"

definition path_exists :: "filesystem \<Rightarrow> path \<Rightarrow> bool" where
  "path_exists fs p = (fs p \<noteq> None)"

definition is_file :: "filesystem \<Rightarrow> path \<Rightarrow> bool" where
  "is_file fs p = (case fs p of Some (File _) \<Rightarrow> True | Some Undecodable \<Rightarrow> True | _ \<Rightarrow> False)"

text \<open>
  \<^verbatim>\<open>path.read_text(encoding='utf-8')\<close>. A path through a file (a file where a
  directory should be) raises \<^verbatim>\<open>NotADirectoryError\<close>.
\<close>

definition read_text :: "filesystem \<Rightarrow> path \<Rightarrow> error + string" where
  "read_text fs p =
     (case fs p of
        None \<Rightarrow>
          if list_ex (is_file fs) (prefixes (butlast p)) then Inl NotADirectoryError
          else Inl FileNotFoundError
      | Some (Dir _) \<Rightarrow> Inl IsADirectoryError
      | Some Undecodable \<Rightarrow> Inl UnicodeDecodeError
      | Some (File s) \<Rightarrow> Inr s)"

text \<open>\<^verbatim>\<open>dir.glob("*.md")\<close>: the entries of the directory whose name ends in \<^verbatim>\<open>.md\<close>.\<close>

definition glob_md :: "filesystem \<Rightarrow> path \<Rightarrow> path list" where
  "glob_md fs d =
     (case fs d of
        Some (Dir names) \<Rightarrow> map (\<lambda>n. d @ [n]) (filter (suffix ''.md'') names)
      | _ \<Rightarrow> [])"

section \<open>Navigation Builder\<close>

type_synonym nav_entry = "string \<times> string \<times> string option"

definition NAV_STRUCTURE :: "nav_entry list" where
  "NAV_STRUCTURE =
     [(''Home'', ''index.html'', None),
      (''Quickstart'', ''quickstart.html'', None),
      (''Quick Reference'', ''quick-reference.html'', None),
      (''Getting Started'', ''getting-started/index.html'', Some ''getting-started''),
      (''Core Guides'', ''core-guides/index.html'', Some ''core-guides''),
      (''Intermediate'', ''intermediate/index.html'', Some ''intermediate''),
      (''Advanced'', ''advanced/index.html'', Some ''advanced''),
      (''Key Concepts'', ''key-concepts/index.html'', Some ''key-concepts''),
      (''Background'', ''background/index.html'', Some ''background''),
      (''Reference'', ''reference/index.html'', Some ''reference''),
      (''Troubleshooting'', ''troubleshooting/index.html'', Some ''troubleshooting'')]"

definition get_files_in_section :: "filesystem \<Rightarrow> path \<Rightarrow> path list" where
  "get_files_in_section fs section_dir =
     (if \<not> path_exists fs section_dir then []
      else
        (let readme = section_dir @ [''README.md''] in
         (if path_exists fs readme then [readme] else [])
         @ filter (\<lambda>f. path_name f \<noteq> ''README.md'') (sort (glob_md fs section_dir))))"

definition active_class :: "bool \<Rightarrow> string" where
  "active_class b = (if b then '' class=\"active\"'' else [])"

definition child_item :: "string \<Rightarrow> string \<Rightarrow> string \<Rightarrow> string" where
  "child_item current_page child_url child_title =
     ''<li><a href=\"'' @ child_url @ ''\"'' @ active_class (current_page = child_url)
       @ ''>'' @ child_title @ ''</a></li>''"

text \<open>
  The inner loop of \<^verbatim>\<open>build_sidebar\<close> over the children of a section; \<open>html\<close> is the list
  of lines built so far. Each child is mapped and read before the test that skips the
  README, so a child that cannot be read fails the whole build.
\<close>

fun sidebar_children :: "filesystem \<Rightarrow> string \<Rightarrow> path list \<Rightarrow> string list \<Rightarrow> error + string list" where
  "sidebar_children fs current_page [] html = Inr html"
| "sidebar_children fs current_page (child # rest) html =
     (case md_to_html_path child of
        Inl e \<Rightarrow> Inl e
      | Inr child_url \<Rightarrow>
          (case read_text fs child of
             Inl e \<Rightarrow> Inl e
           | Inr child_content \<Rightarrow>
               (let child_title = get_title_from_markdown child_content child in
                if path_name child = ''README.md''
                then sidebar_children fs current_page rest html
                else sidebar_children fs current_page rest
                       (html @ [child_item current_page child_url child_title]))))"

definition section_header :: "string \<Rightarrow> string \<Rightarrow> string" where
  "section_header title url =
     ''<li><span class=\"section-title\"><a href=\"'' @ url @ ''\">'' @ title @ ''</a></span>''"

definition top_level_item :: "string \<Rightarrow> string \<Rightarrow> string \<Rightarrow> string" where
  "top_level_item current_page title url =
     ''<li><span class=\"section-title\"><a href=\"'' @ url @ ''\"''
       @ active_class (current_page = url) @ ''>'' @ title @ ''</a></span></li>''"

text \<open>
  One round of the outer loop of \<^verbatim>\<open>build_sidebar\<close>. The test \<^verbatim>\<open>if section_dir:\<close> holds
  for a section name that is neither \<^verbatim>\<open>None\<close> nor empty.
\<close>

definition sidebar_entry :: "filesystem \<Rightarrow> string \<Rightarrow> nav_entry \<Rightarrow> string list \<Rightarrow> error + string list" where
  "sidebar_entry fs current_page entry html =
     (case entry of (title, url, section_dir) \<Rightarrow>
        (let is_active = (current_page = url) in
         if section_dir \<noteq> None \<and> section_dir \<noteq> Some []
         then
           (let section_path = DOCS_DIR @ [the section_dir];
                children = get_files_in_section fs section_path;
                html = html @ [section_header title url]
            in if children \<noteq> []
               then (case sidebar_children fs current_page children (html @ [''<ul>'']) of
                       Inl e \<Rightarrow> Inl e
                     | Inr html \<Rightarrow> Inr (html @ [''</ul>''] @ [''</li>'']))
               else Inr (html @ [''</li>'']))
         else Inr (html @ [top_level_item current_page title url])))"

fun sidebar_entries :: "filesystem \<Rightarrow> string \<Rightarrow> nav_entry list \<Rightarrow> string list \<Rightarrow> error + string list" where
  "sidebar_entries fs current_page [] html = Inr html"
| "sidebar_entries fs current_page (entry # rest) html =
     (case sidebar_entry fs current_page entry html of
        Inl e \<Rightarrow> Inl e
      | Inr html \<Rightarrow> sidebar_entries fs current_page rest html)"

definition sidebar_for :: "nav_entry list \<Rightarrow> filesystem \<Rightarrow> string \<Rightarrow> error + string" where
  "sidebar_for nav fs current_page =
     (case sidebar_entries fs current_page nav [''<ul>''] of
        Inl e \<Rightarrow> Inl e
      | Inr html \<Rightarrow> Inr (str_join [newline] (html @ [''</ul>''])))"

definition build_sidebar :: "filesystem \<Rightarrow> string \<Rightarrow> error + string" where
  "build_sidebar fs current_page = sidebar_for NAV_STRUCTURE fs current_page"

definition build_breadcrumb :: "filesystem \<Rightarrow> path \<Rightarrow> error + string" where
  "build_breadcrumb fs filepath =
     (case relative_to filepath DOCS_DIR of
        Inl e \<Rightarrow> Inl e
      | Inr parts \<Rightarrow>
          if length parts = 1 then Inr []
          else if parts = [] then Inl IndexError
          else
            (let section = hd parts;
                 section_title = humanize section
             in if last parts = ''README.md'' then Inr (''<li>'' @ section_title @ ''</li>'')
                else (case read_text fs filepath of
                        Inl e \<Rightarrow> Inl e
                      | Inr page_content \<Rightarrow>
                          (let page_title = get_title_from_markdown page_content filepath in
                           Inr (''<li><a href=\"index.html\">'' @ section_title
                                @ ''</a></li><li>'' @ page_title @ ''</li>'')))))"

section \<open>Link Rewriter\<close>

text \<open>
  The three patterns of \<^verbatim>\<open>convert_internal_links\<close>, in the order they are applied:
  \<^verbatim>\<open>\]\(([^)]+)\.md\)\<close>, \<^verbatim>\<open>\]\(([^)]*)/README\.html\)\<close> and \<^verbatim>\<open>\]\(README\.html\)\<close>.
  Each is the two characters \<^verbatim>\<open>](\<close>, a group without closing bracket, a literal
  ending, and a closing bracket. The third has no group, which is the same as a group
  that must be empty.
\<close>

datatype link_pattern = MdLink | ReadmeInDir | BareReadme

fun pat_ending :: "link_pattern \<Rightarrow> string" where
  "pat_ending MdLink = ''.md''"
| "pat_ending ReadmeInDir = ''/README.html''"
| "pat_ending BareReadme = ''README.html''"

fun pat_new_ending :: "link_pattern \<Rightarrow> string" where
  "pat_new_ending MdLink = ''.html''"
| "pat_new_ending ReadmeInDir = ''/index.html''"
| "pat_new_ending BareReadme = ''index.html''"

fun group_ok :: "link_pattern \<Rightarrow> string \<Rightarrow> bool" where
  "group_ok MdLink g = (g \<noteq> [])"
| "group_ok ReadmeInDir g = True"
| "group_ok BareReadme g = (g = [])"

text \<open>
  A match of the pattern at the start of \<open>s\<close>. Neither the group nor the ending holds a
  closing bracket, so the match ends at the first closing bracket after \<^verbatim>\<open>](\<close>, and the
  text before that bracket must end with the pattern's ending. The result is the
  replacement text and what is left of \<open>s\<close> after the match.
\<close>

definition match_at :: "link_pattern \<Rightarrow> string \<Rightarrow> (string \<times> string) option" where
  "match_at p s =
     (if prefix '']('' s then
        (let inner = takeWhile (\<lambda>c. c \<noteq> CHR '')'') (drop 2 s);
             rest = dropWhile (\<lambda>c. c \<noteq> CHR '')'') (drop 2 s);
             g = take (length inner - length (pat_ending p)) inner
         in if rest \<noteq> [] \<and> suffix (pat_ending p) inner \<and> group_ok p g
            then Some ('']('' @ g @ pat_new_ending p @ '')'', tl rest)
            else None)
      else None)"

lemma match_at_shorter: "match_at p s = Some (r, s') \<Longrightarrow> length s' < length s"
proof -
  assume m: "match_at p s = Some (r, s')"
  let ?rest = "dropWhile (\<lambda>c. c \<noteq> CHR '')'') (drop 2 s)"
  from m have "?rest \<noteq> []" and "s' = tl ?rest"
    by (auto simp: match_at_def Let_def split: if_splits)
  moreover have "length ?rest \<le> length (drop 2 s)"
    by (rule length_dropWhile_le)
  ultimately show ?thesis
    by (cases ?rest) auto
qed

text \<open>
  \<^verbatim>\<open>re.sub\<close> for one of the patterns: the text is read from the left, each match is
  replaced, and reading goes on behind the match.
\<close>

function re_sub :: "link_pattern \<Rightarrow> string \<Rightarrow> string" where
  "re_sub p [] = []"
| "re_sub p (c # cs) =
     (case match_at p (c # cs) of
        Some (r, s') \<Rightarrow> r @ re_sub p s'
      | None \<Rightarrow> c # re_sub p cs)"
  by pat_completeness auto
termination
  by (relation "measure (\<lambda>(p, s). length s)") (auto dest: match_at_shorter)

definition convert_internal_links :: "string \<Rightarrow> string" where
  "convert_internal_links content = re_sub BareReadme (re_sub ReadmeInDir (re_sub MdLink content))"

section \<open>Page Assembler\<close>

text \<open>
  \<^verbatim>\<open>s.replace(old, new)\<close> for a non-empty \<open>old\<close>: every occurrence of \<open>old\<close> in \<open>s\<close>,
  found from the left and not overlapping an earlier one, becomes \<open>new\<close>. \<open>skip\<close> counts
  the characters of an occurrence that are still to be passed over.
\<close>

fun replace_from :: "string \<Rightarrow> string \<Rightarrow> nat \<Rightarrow> string \<Rightarrow> string" where
  "replace_from old new skip [] = []"
| "replace_from old new (Suc k) (c # cs) = replace_from old new k cs"
| "replace_from old new 0 (c # cs) =
     (if prefix old (c # cs) then new @ replace_from old new (length old - 1) cs
      else c # replace_from old new 0 cs)"

text \<open>For an empty \<open>old\<close>, Python puts \<open>new\<close> before every character and at the end.\<close>

definition str_replace :: "string \<Rightarrow> string \<Rightarrow> string \<Rightarrow> string" where
  "str_replace old new s =
     (if old = [] then concat (map (\<lambda>c. new @ [c]) s) @ new
      else replace_from old new 0 s)"

text \<open>The four replacements that end \<^verbatim>\<open>build_page\<close>, in their order.\<close>

definition fill_template :: "string \<Rightarrow> string \<Rightarrow> string \<Rightarrow> string \<Rightarrow> string \<Rightarrow> string" where
  "fill_template template title sidebar breadcrumb html_content =
     (let page = str_replace ''{{title}}'' title template;
          page = str_replace ''{{sidebar}}'' sidebar page;
          page = str_replace ''{{breadcrumb}}'' breadcrumb page;
          page = str_replace ''{{content}}'' html_content page
      in page)"

text \<open>
  \<^verbatim>\<open>build_page\<close>. The markdown renderer is a library outside the repository; it is the
  parameter \<open>render\<close>, a function from markdown text to HTML text.
\<close>

definition build_page :: "(string \<Rightarrow> string) \<Rightarrow> filesystem \<Rightarrow> path \<Rightarrow> string \<Rightarrow> error + string" where
  "build_page render fs md_path template =
     (case read_text fs md_path of
        Inl e \<Rightarrow> Inl e
      | Inr content \<Rightarrow>
          (let title = get_title_from_markdown content md_path;
               content = convert_internal_links content;
               html_content = render content
           in case md_to_html_path md_path of
                Inl e \<Rightarrow> Inl e
              | Inr html_path \<Rightarrow>
                  (case build_sidebar fs html_path of
                     Inl e \<Rightarrow> Inl e
                   | Inr sidebar \<Rightarrow>
                       (case build_breadcrumb fs md_path of
                          Inl e \<Rightarrow> Inl e
                        | Inr breadcrumb \<Rightarrow>
                            Inr (fill_template template title sidebar breadcrumb html_content)))))"

section \<open>Properties of the Path Mapper\<close>

lemma rfind_dot_append:
  "rfind_dot (xs @ ys) =
     (case rfind_dot ys of Some i \<Rightarrow> Some (length xs + i) | None \<Rightarrow> rfind_dot xs)"
  by (induction xs) (auto split: option.splits)

lemma name_suffix_md: "stem \<noteq> [] \<Longrightarrow> name_suffix (stem @ ''.md'') = ''.md''"
  by (simp add: name_suffix_def rfind_dot_append)

lemma relative_to_docs: "relative_to (DOCS_DIR @ p) DOCS_DIR = Inr p"
  by (simp add: relative_to_def)

text \<open>
  Claim C1, as amended. A file named \<^verbatim>\<open>README.md\<close> in the directory \<open>D\<close> under the
  documentation root is mapped to \<^verbatim>\<open>D/index.html\<close>. Any other file \<^verbatim>\<open>S.md\<close> in \<open>D\<close>
  whose stem \<open>S\<close> is not empty is mapped to \<^verbatim>\<open>D/S.html\<close>.
\<close>

theorem md_to_html_path_mapping:
  "md_to_html_path (DOCS_DIR @ D @ [''README.md'']) = Inr (path_str (D @ [''index.html''])) \<and>
   (stem \<noteq> [] \<and> stem @ ''.md'' \<noteq> ''README.md'' \<longrightarrow>
      md_to_html_path (DOCS_DIR @ D @ [stem @ ''.md'']) = Inr (path_str (D @ [stem @ ''.html''])))"
proof (intro conjI impI)
  show "md_to_html_path (DOCS_DIR @ D @ [''README.md'']) = Inr (path_str (D @ [''index.html'']))"
    by (simp add: md_to_html_path_def relative_to_docs path_name_def path_parent_def)
next
  assume h: "stem \<noteq> [] \<and> stem @ ''.md'' \<noteq> ''README.md''"
  then have "with_suffix (D @ [stem @ ''.md'']) ''.html'' = Inr (D @ [stem @ ''.html''])"
    by (simp add: with_suffix_def path_name_def name_suffix_md)
  with h show "md_to_html_path (DOCS_DIR @ D @ [stem @ ''.md'']) = Inr (path_str (D @ [stem @ ''.html'']))"
    by (simp add: md_to_html_path_def relative_to_docs path_name_def)
qed

theorem md_to_html_path_mapping_witness:
  "(''topic-a'' \<noteq> [] \<and> ''topic-a'' @ ''.md'' \<noteq> ''README.md'') \<and>
   md_to_html_path [''docs'', ''core-guides'', ''README.md''] = Inr ''core-guides/index.html'' \<and>
   md_to_html_path [''docs'', ''core-guides'', ''topic-a.md''] = Inr ''core-guides/topic-a.html''"
  using md_to_html_path_mapping [of "[''core-guides'']" "''topic-a''"]
  by (simp add: DOCS_DIR_def path_str_def)

text \<open>
  The claim as first stated fails for the file named \<^verbatim>\<open>.md\<close>: \<^verbatim>\<open>pathlib\<close> takes a
  leading dot for part of the stem, so the name has no suffix, and \<^verbatim>\<open>.html\<close> is appended
  to the whole name.
\<close>

theorem md_to_html_path_dotfile_counterexample:
  "md_to_html_path (DOCS_DIR @ [[] @ ''.md'']) = Inr ''.md.html'' \<and>
   md_to_html_path (DOCS_DIR @ [[] @ ''.md'']) \<noteq> Inr (path_str [[] @ ''.html''])"
  by (simp add: md_to_html_path_def relative_to_def DOCS_DIR_def path_name_def with_suffix_def
      name_suffix_def path_str_def)

section \<open>Properties of the Page Assembler\<close>

lemma replace_from_skip:
  "length xs = k \<Longrightarrow> replace_from old new k (xs @ rest) = replace_from old new 0 rest"
  by (induction xs arbitrary: k) auto

lemma replace_from_hit:
  "old \<noteq> [] \<Longrightarrow> replace_from old new 0 (old @ rest) = new @ replace_from old new 0 rest"
proof -
  assume "old \<noteq> []"
  then obtain a as where old: "old = a # as" by (cases old) auto
  have "replace_from old new (length as) (as @ rest) = replace_from old new 0 rest"
    by (rule replace_from_skip) simp
  then show ?thesis by (simp add: old)
qed

text \<open>A text in which \<open>old\<close> does not occur is left as it is.\<close>

lemma replace_from_absent:
  "\<not> sublist old s \<Longrightarrow> replace_from old new 0 s = s"
proof (induction s)
  case Nil
  then show ?case by simp
next
  case (Cons c cs)
  then have "\<not> prefix old (c # cs)" and "\<not> sublist old cs"
    by (auto simp: sublist_Cons_right)
  with Cons.IH show ?case by simp
qed

text \<open>
  When the first occurrence of \<open>old\<close> in a text is the one after \<open>a\<close>, the text up
  to it is kept, the occurrence becomes \<open>new\<close>, and the replacement goes on behind it.
\<close>

lemma replace_from_first:
  assumes "old \<noteq> []"
  shows "\<not> sublist old (a @ butlast old) \<Longrightarrow>
         replace_from old new 0 (a @ old @ b) = a @ new @ replace_from old new 0 b"
proof (induction a)
  case Nil
  with assms show ?case by (simp add: replace_from_hit)
next
  case (Cons c a)
  have "\<not> prefix old (c # a @ old @ b)"
  proof
    assume p: "prefix old (c # a @ old @ b)"
    have "prefix (c # a @ butlast old) (c # a @ butlast old @ [last old] @ b)"
      by simp
    with assms have q: "prefix (c # a @ butlast old) (c # a @ old @ b)"
      by (metis append_butlast_last_id append.assoc)
    have "length old \<le> length (c # a @ butlast old)"
      by simp
    with p q have "prefix old (c # a @ butlast old)"
      by (rule prefix_length_prefix)
    with Cons.prems show False by auto
  qed
  moreover from Cons.prems have "\<not> sublist old (a @ butlast old)"
    by (auto simp: sublist_Cons_right)
  ultimately show ?case
    using Cons.IH by simp
qed

lemma first_occurrence:
  assumes "old \<noteq> []"
  shows "sublist old s \<Longrightarrow> \<exists>a b. s = a @ old @ b \<and> \<not> sublist old (a @ butlast old)"
proof (induction s)
  case Nil
  with assms show ?case by simp
next
  case (Cons c cs)
  show ?case
  proof (cases "prefix old (c # cs)")
    case True
    then obtain b where "c # cs = [] @ old @ b"
      by (auto simp: prefix_def)
    moreover have "\<not> sublist old ([] @ butlast old)"
    proof
      assume "sublist old ([] @ butlast old)"
      then have "sublist old (butlast old)"
        by simp
      then have "length old \<le> length (butlast old)"
        by (rule sublist_length_le)
      then have "length old \<le> length old - 1"
        by (simp only: length_butlast)
      moreover from assms have "length old \<noteq> 0"
        by simp
      ultimately show False
        by arith
    qed
    ultimately show ?thesis by blast
  next
    case False
    with Cons.prems have "sublist old cs"
      by (simp add: sublist_Cons_right)
    from Cons.IH [OF this] obtain a b where
      s: "cs = a @ old @ b" and n: "\<not> sublist old (a @ butlast old)"
      by blast
    have "\<not> prefix old (c # a @ butlast old)"
    proof
      assume "prefix old (c # a @ butlast old)"
      moreover have "prefix (c # a @ butlast old) (c # a @ butlast old @ [last old] @ b)"
        by simp
      with assms have "prefix (c # a @ butlast old) (c # cs)"
        unfolding s by (metis append_butlast_last_id append.assoc)
      ultimately have "prefix old (c # cs)"
        by (rule prefix_order.trans)
      with False show False by simp
    qed
    with n have "\<not> sublist old ((c # a) @ butlast old)"
      by (simp add: sublist_Cons_right)
    moreover from s have "c # cs = (c # a) @ old @ b"
      by simp
    ultimately show ?thesis by blast
  qed
qed

lemma str_join_Cons: "pieces \<noteq> [] \<Longrightarrow> str_join sep (x # pieces) = x @ sep @ str_join sep pieces"
  by (cases pieces) auto

text \<open>
  Every text is a row of pieces without \<open>old\<close>, with \<open>old\<close> between each two of
  them; the replacement puts \<open>new\<close> in all these places.
\<close>

lemma replace_from_pieces:
  assumes "old \<noteq> []"
  shows "\<exists>pieces. pieces \<noteq> [] \<and> s = str_join old pieces \<and>
           list_all (\<lambda>p. \<not> sublist old p) pieces \<and>
           (\<forall>new. replace_from old new 0 s = str_join new pieces)"
proof (induction s rule: length_induct)
  case (1 s)
  show ?case
  proof (cases "sublist old s")
    case False
    then have "[s] \<noteq> [] \<and> s = str_join old [s] \<and> list_all (\<lambda>p. \<not> sublist old p) [s] \<and>
           (\<forall>new. replace_from old new 0 s = str_join new [s])"
      by (simp add: replace_from_absent)
    then show ?thesis by blast
  next
    case True
    from first_occurrence [OF assms True] obtain a b where
      s: "s = a @ old @ b" and n: "\<not> sublist old (a @ butlast old)"
      by blast
    from s assms have "length b < length s"
      by simp
    with 1 obtain pieces where
      p: "pieces \<noteq> []" "b = str_join old pieces" "list_all (\<lambda>p. \<not> sublist old p) pieces"
        "\<forall>new. replace_from old new 0 b = str_join new pieces"
      by blast
    from n have "\<not> sublist old a"
      by (meson sublist_append_rightI sublist_order.order.trans)
    with p s n assms
    have "a # pieces \<noteq> [] \<and> s = str_join old (a # pieces) \<and>
           list_all (\<lambda>p. \<not> sublist old p) (a # pieces) \<and>
           (\<forall>new. replace_from old new 0 s = str_join new (a # pieces))"
      by (simp add: str_join_Cons replace_from_first)
    then show ?thesis by blast
  qed
qed

lemma str_replace_pieces:
  assumes "old \<noteq> []"
  shows "\<exists>pieces. pieces \<noteq> [] \<and> s = str_join old pieces \<and>
           list_all (\<lambda>p. \<not> sublist old p) pieces \<and>
           (\<forall>new. str_replace old new s = str_join new pieces)"
  using replace_from_pieces [OF assms, of s] assms by (simp add: str_replace_def)

text \<open>
  Claim C2, as amended. The four placeholder tokens are replaced one after the other,
  title, sidebar, breadcrumb, content, each replacement working on the result of the one
  before. \<^verbatim>\<open>str.replace\<close> is called without a count, so each replacement replaces
  every occurrence of its token in the text it works on, not only the first: the text
  is a row of pieces that do not hold the token, with the token between each two of
  them, and the result is the same row of pieces with the value between each two of them.
\<close>

theorem fill_template_replaces_every_occurrence:
  "fill_template template title sidebar breadcrumb html_content
     = str_replace ''{{content}}'' html_content
         (str_replace ''{{breadcrumb}}'' breadcrumb
            (str_replace ''{{sidebar}}'' sidebar
               (str_replace ''{{title}}'' title template))) \<and>
   (tok \<in> set [''{{title}}'', ''{{sidebar}}'', ''{{breadcrumb}}'', ''{{content}}''] \<longrightarrow>
      (\<exists>pieces. pieces \<noteq> [] \<and> s = str_join tok pieces \<and>
         list_all (\<lambda>p. \<not> sublist tok p) pieces \<and>
         (\<forall>new. str_replace tok new s = str_join new pieces)))"
proof (intro conjI impI)
  show "fill_template template title sidebar breadcrumb html_content
     = str_replace ''{{content}}'' html_content
         (str_replace ''{{breadcrumb}}'' breadcrumb
            (str_replace ''{{sidebar}}'' sidebar
               (str_replace ''{{title}}'' title template)))"
    by (simp add: fill_template_def)
next
  assume "tok \<in> set [''{{title}}'', ''{{sidebar}}'', ''{{breadcrumb}}'', ''{{content}}'']"
  then have "tok \<noteq> []"
    by auto
  then show "\<exists>pieces. pieces \<noteq> [] \<and> s = str_join tok pieces \<and>
         list_all (\<lambda>p. \<not> sublist tok p) pieces \<and>
         (\<forall>new. str_replace tok new s = str_join new pieces)"
    by (rule str_replace_pieces)
qed

theorem fill_template_replaces_every_occurrence_witness:
  "''{{title}}'' \<in> set [''{{title}}'', ''{{sidebar}}'', ''{{breadcrumb}}'', ''{{content}}''] \<and>
   ''<h1>{{title}}</h1><h2>{{title}}</h2>'' = str_join ''{{title}}'' [''<h1>'', ''</h1><h2>'', ''</h2>''] \<and>
   fill_template ''<h1>{{title}}</h1><h2>{{title}}</h2>'' ''T'' ''S'' ''B'' ''C''
     = str_join ''T'' [''<h1>'', ''</h1><h2>'', ''</h2>'']"
  using fill_template_replaces_every_occurrence
    [of "''<h1>{{title}}</h1><h2>{{title}}</h2>''" "''T''" "''S''" "''B''" "''C''" "''{{title}}''"
        "''<h1>{{title}}</h1><h2>{{title}}</h2>''"]
  by (simp add: fill_template_def str_replace_def)

text \<open>
  The claim as first stated fails on a template with the title token twice: both are
  replaced, where replacing the first occurrence only would leave the second.
\<close>

theorem fill_template_first_occurrence_counterexample:
  "fill_template ''<h1>{{title}}</h1><h2>{{title}}</h2>'' ''T'' ''S'' ''B'' ''C''
     = ''<h1>T</h1><h2>T</h2>'' \<and>
   fill_template ''<h1>{{title}}</h1><h2>{{title}}</h2>'' ''T'' ''S'' ''B'' ''C''
     \<noteq> ''<h1>T</h1><h2>{{title}}</h2>''"
  by (simp add: fill_template_def str_replace_def)

lemma sublist_str_join:
  "pieces \<noteq> [] \<Longrightarrow> sublist new (str_join new (x # pieces))"
  by (simp add: str_join_Cons sublist_append)

text \<open>
  Claim C8, as amended. The rendered content is put in by the last of the four
  replacements, and nothing is replaced after it. So the assembled page is the text that
  the title, sidebar and breadcrumb replacements leave, cut at its content tokens, with
  the rendered content, exactly as the renderer gave it, between the pieces. A
  placeholder token in the rendered content is therefore not replaced: when that text has
  a content token at all, every text that occurs in the rendered content, a placeholder
  token included, occurs in the assembled page.
\<close>

theorem fill_template_content_verbatim:
  "(\<exists>pieces. pieces \<noteq> [] \<and>
      str_replace ''{{breadcrumb}}'' breadcrumb
        (str_replace ''{{sidebar}}'' sidebar (str_replace ''{{title}}'' title template))
        = str_join ''{{content}}'' pieces \<and>
      list_all (\<lambda>p. \<not> sublist ''{{content}}'' p) pieces \<and>
      (\<forall>html_content.
         fill_template template title sidebar breadcrumb html_content
           = str_join html_content pieces)) \<and>
   (sublist ''{{content}}''
      (str_replace ''{{breadcrumb}}'' breadcrumb
        (str_replace ''{{sidebar}}'' sidebar (str_replace ''{{title}}'' title template))) \<and>
    sublist tok html_content \<longrightarrow>
      sublist tok (fill_template template title sidebar breadcrumb html_content))"
proof -
  let ?text = "str_replace ''{{breadcrumb}}'' breadcrumb
        (str_replace ''{{sidebar}}'' sidebar (str_replace ''{{title}}'' title template))"
  have "\<exists>pieces. pieces \<noteq> [] \<and> ?text = str_join ''{{content}}'' pieces \<and>
           list_all (\<lambda>p. \<not> sublist ''{{content}}'' p) pieces \<and>
           (\<forall>new. str_replace ''{{content}}'' new ?text = str_join new pieces)"
    by (rule str_replace_pieces) simp
  then obtain pieces where
    p: "pieces \<noteq> []" "?text = str_join ''{{content}}'' pieces"
      "list_all (\<lambda>p. \<not> sublist ''{{content}}'' p) pieces"
    and r: "\<forall>new. str_replace ''{{content}}'' new ?text = str_join new pieces"
    by blast
  have f: "\<forall>html_content.
         fill_template template title sidebar breadcrumb html_content
           = str_join html_content pieces"
    using r by (simp add: fill_template_def)
  have "sublist tok (fill_template template title sidebar breadcrumb html_content)"
    if t: "sublist ''{{content}}'' ?text" and h: "sublist tok html_content"
  proof -
    from p(1) obtain x rest where x: "pieces = x # rest"
      by (cases pieces) auto
    have "rest \<noteq> []"
    proof
      assume "rest = []"
      with x p have "?text = x" and "\<not> sublist ''{{content}}'' x"
        by simp_all
      with t show False by simp
    qed
    then have "sublist html_content (str_join html_content pieces)"
      unfolding x by (rule sublist_str_join)
    with f have "sublist html_content (fill_template template title sidebar breadcrumb html_content)"
      by simp
    with h show ?thesis
      by (rule sublist_order.order.trans)
  qed
  with p f show ?thesis
    by blast
qed

theorem fill_template_content_verbatim_witness:
  "sublist ''{{content}}''
      (str_replace ''{{breadcrumb}}'' ''B''
        (str_replace ''{{sidebar}}'' ''S''
           (str_replace ''{{title}}'' ''T'' ''<title>{{title}}</title><main>{{content}}</main>''))) \<and>
   sublist ''{{title}}'' ''<p>{{title}}</p>'' \<and>
   sublist ''{{title}}''
     (fill_template ''<title>{{title}}</title><main>{{content}}</main>'' ''T'' ''S'' ''B''
        ''<p>{{title}}</p>'')"
proof -
  have a: "sublist ''{{content}}''
      (str_replace ''{{breadcrumb}}'' ''B''
        (str_replace ''{{sidebar}}'' ''S''
           (str_replace ''{{title}}'' ''T'' ''<title>{{title}}</title><main>{{content}}</main>'')))"
    by code_simp
  have b: "sublist ''{{title}}'' ''<p>{{title}}</p>''"
    by code_simp
  from fill_template_content_verbatim
    [of "''B''" "''S''" "''T''" "''<title>{{title}}</title><main>{{content}}</main>''"
        "''{{title}}''" "''<p>{{title}}</p>''"] a b
  show ?thesis by blast
qed

text \<open>
  The claim as first stated fails: a title token in the rendered content is still in the
  assembled page.
\<close>

theorem fill_template_content_token_counterexample:
  "fill_template ''<main>{{content}}</main>'' ''T'' ''S'' ''B'' ''<p>{{title}}</p>''
     = ''<main><p>{{title}}</p></main>''"
  by (simp add: fill_template_def str_replace_def)

section \<open>Properties of the Navigation Builder\<close>

text \<open>
  What the inner loop adds to the lines: one item for each child that is not a README, in
  the order of the children, with the child's destination as link and its title as text.
\<close>

lemma sidebar_children_items:
  "sidebar_children fs current_page children html = Inr out \<Longrightarrow>
   \<exists>items. out = html @ items \<and>
     list_all2
       (\<lambda>child item. \<exists>url content.
          md_to_html_path child = Inr url \<and> read_text fs child = Inr content \<and>
          item = child_item current_page url (get_title_from_markdown content child))
       (filter (\<lambda>f. path_name f \<noteq> ''README.md'') children) items"
proof (induction children arbitrary: html)
  case Nil
  then show ?case by simp
next
  case (Cons child rest)
  from Cons.prems obtain url content where
    u: "md_to_html_path child = Inr url" and c: "read_text fs child = Inr content"
    by (auto split: sum.splits)
  show ?case
  proof (cases "path_name child = ''README.md''")
    case True
    with Cons.prems u c have "sidebar_children fs current_page rest html = Inr out"
      by simp
    from Cons.IH [OF this] True show ?thesis by simp
  next
    case False
    let ?item = "child_item current_page url (get_title_from_markdown content child)"
    from Cons.prems u c False
    have "sidebar_children fs current_page rest (html @ [?item]) = Inr out"
      by simp
    from Cons.IH [OF this] obtain items where
      "out = (html @ [?item]) @ items" and
      "list_all2
         (\<lambda>child item. \<exists>url content.
            md_to_html_path child = Inr url \<and> read_text fs child = Inr content \<and>
            item = child_item current_page url (get_title_from_markdown content child))
         (filter (\<lambda>f. path_name f \<noteq> ''README.md'') rest) items"
      by blast
    with u c False show ?thesis
      by (intro exI [of _ "?item # items"]) simp
  qed
qed

text \<open>
  Claim C9. When the directory of a section is not on disk, the section has no children,
  no error is raised, and its sidebar entry is the section link alone, closed at once,
  with no nested list.
\<close>

theorem missing_section_dir_empty_children:
  assumes "\<not> path_exists fs (DOCS_DIR @ [section_dir])" and "section_dir \<noteq> []"
  shows "get_files_in_section fs (DOCS_DIR @ [section_dir]) = [] \<and>
         sidebar_entry fs current_page (title, url, Some section_dir) html
           = Inr (html @ [''<li><span class=\"section-title\"><a href=\"'' @ url @ ''\">''
                           @ title @ ''</a></span>'', ''</li>''])"
  using assms by (simp add: get_files_in_section_def sidebar_entry_def section_header_def)

theorem missing_section_dir_empty_children_witness:
  "\<not> path_exists Map.empty (DOCS_DIR @ [''advanced'']) \<and> ''advanced'' \<noteq> [] \<and>
   get_files_in_section Map.empty [''docs'', ''advanced''] = [] \<and>
   sidebar_entry Map.empty ''index.html'' (''Advanced'', ''advanced/index.html'', Some ''advanced'') [''<ul>'']
     = Inr [''<ul>'', ''<li><span class=\"section-title\"><a href=\"advanced/index.html\">Advanced</a></span>'', ''</li>'']"
  using missing_section_dir_empty_children
    [of Map.empty "''advanced''" "''index.html''" "''Advanced''" "''advanced/index.html''" "[''<ul>'']"]
  by (simp add: path_exists_def DOCS_DIR_def)

text \<open>The lines built before a loop starts are carried through unchanged.\<close>

lemma sidebar_children_prepend:
  "sidebar_children fs current_page children (h1 @ h2) =
     (case sidebar_children fs current_page children h2 of
        Inl e \<Rightarrow> Inl e
      | Inr ls \<Rightarrow> Inr (h1 @ ls))"
proof (induction children arbitrary: h2)
  case Nil
  then show ?case by simp
next
  case (Cons child rest)
  have "\<And>x. sidebar_children fs current_page rest (h1 @ h2 @ [x]) =
     (case sidebar_children fs current_page rest (h2 @ [x]) of
        Inl e \<Rightarrow> Inl e
      | Inr ls \<Rightarrow> Inr (h1 @ ls))"
    using Cons.IH by blast
  with Cons.IH [of h2] show ?case
    by (simp split: sum.splits)
qed

lemma sidebar_entry_prepend:
  "sidebar_entry fs current_page entry html =
     (case sidebar_entry fs current_page entry [] of
        Inl e \<Rightarrow> Inl e
      | Inr block \<Rightarrow> Inr (html @ block))"
proof -
  obtain title url section_dir where e: "entry = (title, url, section_dir)"
    by (cases entry) auto
  have "\<And>x. sidebar_children fs current_page
            (get_files_in_section fs (DOCS_DIR @ [the section_dir])) (html @ [x, ''<ul>'']) =
     (case sidebar_children fs current_page
            (get_files_in_section fs (DOCS_DIR @ [the section_dir])) [x, ''<ul>''] of
        Inl e \<Rightarrow> Inl e
      | Inr ls \<Rightarrow> Inr (html @ ls))"
    by (rule sidebar_children_prepend)
  then show ?thesis
    by (simp add: e sidebar_entry_def Let_def split: sum.splits)
qed

text \<open>
  Claim C10. The link of an entry that has a section directory is written without the
  active class whatever the current page is, also when the current page is the entry's
  own URL: the entry is that link, and then either nothing or the list of its children.
  The link of an entry without section directory, and the link of a child, carry the
  active class exactly when their URL is the current page.
\<close>

theorem section_title_link_never_active:
  "(section_dir \<noteq> [] \<and> sidebar_entry fs current_page (title, url, Some section_dir) html = Inr out \<longrightarrow>
      (\<exists>items.
         (out = html @ [''<li><span class=\"section-title\"><a href=\"'' @ url @ ''\">'' @ title
                         @ ''</a></span>'', ''</li>''] \<or>
          out = html @ [''<li><span class=\"section-title\"><a href=\"'' @ url @ ''\">'' @ title
                         @ ''</a></span>'', ''<ul>''] @ items @ [''</ul>'', ''</li>'']) \<and>
         list_all2
           (\<lambda>child item. \<exists>child_url content.
              md_to_html_path child = Inr child_url \<and> read_text fs child = Inr content \<and>
              item = ''<li><a href=\"'' @ child_url @ ''\"''
                     @ (if current_page = child_url then '' class=\"active\"'' else [])
                     @ ''>'' @ get_title_from_markdown content child @ ''</a></li>'')
           (filter (\<lambda>f. path_name f \<noteq> ''README.md'')
              (get_files_in_section fs (DOCS_DIR @ [section_dir]))) items)) \<and>
   sidebar_entry fs current_page (title, url, None) html
     = Inr (html @ [''<li><span class=\"section-title\"><a href=\"'' @ url @ ''\"''
                    @ (if current_page = url then '' class=\"active\"'' else [])
                    @ ''>'' @ title @ ''</a></span></li>''])"
proof (intro conjI impI)
  assume h: "section_dir \<noteq> [] \<and>
    sidebar_entry fs current_page (title, url, Some section_dir) html = Inr out"
  let ?children = "get_files_in_section fs (DOCS_DIR @ [section_dir])"
  let ?head = "''<li><span class=\"section-title\"><a href=\"'' @ url @ ''\">'' @ title @ ''</a></span>''"
  let ?R = "\<lambda>child item. \<exists>child_url content.
              md_to_html_path child = Inr child_url \<and> read_text fs child = Inr content \<and>
              item = ''<li><a href=\"'' @ child_url @ ''\"''
                     @ (if current_page = child_url then '' class=\"active\"'' else [])
                     @ ''>'' @ get_title_from_markdown content child @ ''</a></li>''"
  show "\<exists>items.
         (out = html @ [?head, ''</li>''] \<or> out = html @ [?head, ''<ul>''] @ items @ [''</ul>'', ''</li>'']) \<and>
         list_all2 ?R (filter (\<lambda>f. path_name f \<noteq> ''README.md'') ?children) items"
  proof (cases "?children = []")
    case True
    with h have "out = html @ [?head, ''</li>'']"
      by (auto simp: sidebar_entry_def section_header_def)
    with True show ?thesis by simp
  next
    case False
    with h obtain ls where
      ls: "sidebar_children fs current_page ?children (html @ [?head, ''<ul>'']) = Inr ls"
      and out: "out = ls @ [''</ul>'', ''</li>'']"
      by (auto simp: sidebar_entry_def section_header_def Let_def split: sum.splits)
    from sidebar_children_items [OF ls] obtain items where
      "ls = (html @ [?head, ''<ul>'']) @ items" and
      "list_all2 ?R (filter (\<lambda>f. path_name f \<noteq> ''README.md'') ?children) items"
      by (auto simp: child_item_def active_class_def)
    with out show ?thesis by auto
  qed
next
  show "sidebar_entry fs current_page (title, url, None) html
     = Inr (html @ [''<li><span class=\"section-title\"><a href=\"'' @ url @ ''\"''
                    @ (if current_page = url then '' class=\"active\"'' else [])
                    @ ''>'' @ title @ ''</a></span></li>''])"
    by (simp add: sidebar_entry_def top_level_item_def active_class_def)
qed

theorem section_title_link_never_active_witness:
  "''advanced'' \<noteq> [] \<and>
   sidebar_entry
     [[''docs'', ''advanced''] \<mapsto> Dir [''b.md'', ''README.md''],
      [''docs'', ''advanced'', ''README.md''] \<mapsto> File ''# Advanced'',
      [''docs'', ''advanced'', ''b.md''] \<mapsto> File ''# Bee'']
     ''advanced/index.html'' (''Advanced'', ''advanced/index.html'', Some ''advanced'') [''<ul>'']
   = Inr [''<ul>'',
          ''<li><span class=\"section-title\"><a href=\"advanced/index.html\">Advanced</a></span>'',
          ''<ul>'', ''<li><a href=\"advanced/b.html\">Bee</a></li>'', ''</ul>'', ''</li>''] \<and>
   sidebar_entry Map.empty ''index.html'' (''Home'', ''index.html'', None) [''<ul>'']
   = Inr [''<ul>'',
          ''<li><span class=\"section-title\"><a href=\"index.html\" class=\"active\">Home</a></span></li>'']"
proof -
  let ?fs = "[[''docs'', ''advanced''] \<mapsto> Dir [''b.md'', ''README.md''],
      [''docs'', ''advanced'', ''README.md''] \<mapsto> File ''# Advanced'',
      [''docs'', ''advanced'', ''b.md''] \<mapsto> File ''# Bee'']"
  have h: "sidebar_entry ?fs
     ''advanced/index.html'' (''Advanced'', ''advanced/index.html'', Some ''advanced'') [''<ul>'']
   = Inr [''<ul>'',
          ''<li><span class=\"section-title\"><a href=\"advanced/index.html\">Advanced</a></span>'',
          ''<ul>'', ''<li><a href=\"advanced/b.html\">Bee</a></li>'', ''</ul>'', ''</li>'']"
    by code_simp
  from section_title_link_never_active
    [of "''advanced''" ?fs "''advanced/index.html''" "''Advanced''" "''advanced/index.html''"
        "[''<ul>'']" _]
    section_title_link_never_active
    [of _ Map.empty "''index.html''" "''Home''" "''index.html''" "[''<ul>'']" _]
    h
  show ?thesis by simp
qed

text \<open>
  Paths of one directory are ordered as their names are: \<^verbatim>\<open>sorted\<close> compares the
  tuples of parts.
\<close>

lemma same_dir_le: "(d @ [n] \<le> d @ [m]) = (n \<le> (m :: string))"
  by (induction d) auto

lemma glob_md_names: "p \<in> set (glob_md fs d) \<Longrightarrow> p = d @ [path_name p]"
  by (auto simp: glob_md_def path_name_def split: option.splits node.splits)

lemma sorted_glob_names: "sorted (map path_name (sort (glob_md fs d)))"
proof -
  have "sorted_wrt (\<le>) (sort (glob_md fs d))"
    by simp
  then have "sorted_wrt (\<lambda>p q. path_name p \<le> path_name q) (sort (glob_md fs d))"
  proof (rule sorted_wrt_mono_rel [rotated])
    fix p q
    assume "p \<in> set (sort (glob_md fs d))" and "q \<in> set (sort (glob_md fs d))" and "p \<le> q"
    then have "d @ [path_name p] \<le> d @ [path_name q]"
      using glob_md_names [of p fs d] glob_md_names [of q fs d] by simp
    then show "path_name p \<le> path_name q"
      by (simp only: same_dir_le)
  qed
  then show ?thesis
    by (simp add: sorted_wrt_map)
qed

lemma section_children_without_readme:
  "filter (\<lambda>f. path_name f \<noteq> ''README.md'') (get_files_in_section fs d)
     = (if path_exists fs d
        then filter (\<lambda>f. path_name f \<noteq> ''README.md'') (sort (glob_md fs d)) else [])"
  by (simp add: get_files_in_section_def Let_def path_name_def)

lemma section_children_sorted:
  "sorted (map path_name (filter (\<lambda>f. path_name f \<noteq> ''README.md'') (get_files_in_section fs d)))"
proof -
  have "sorted (map path_name (filter (\<lambda>f. path_name f \<noteq> ''README.md'') (sort (glob_md fs d))))"
    using sorted_glob_names [of fs d]
    by (simp only: sorted_wrt_map sorted_wrt_filter)
  then show ?thesis
    by (simp add: section_children_without_readme)
qed

lemma sidebar_entries_blocks:
  "sidebar_entries fs current_page nav html = Inr out \<Longrightarrow>
   \<exists>blocks. out = html @ concat blocks \<and>
     list_all2 (\<lambda>entry block. sidebar_entry fs current_page entry [] = Inr block) nav blocks"
proof (induction nav arbitrary: html)
  case Nil
  then show ?case by simp
next
  case (Cons entry rest)
  from Cons.prems obtain html' where
    e: "sidebar_entry fs current_page entry html = Inr html'"
    and r: "sidebar_entries fs current_page rest html' = Inr out"
    by (auto split: sum.splits)
  from e obtain block where
    b: "sidebar_entry fs current_page entry [] = Inr block" and h: "html' = html @ block"
    by (subst (asm) sidebar_entry_prepend) (auto split: sum.splits)
  from Cons.IH [OF r] obtain blocks where
    "out = html' @ concat blocks" and
    "list_all2 (\<lambda>entry block. sidebar_entry fs current_page entry [] = Inr block) rest blocks"
    by blast
  with b h show ?case
    by (intro exI [of _ "block # blocks"]) simp
qed

text \<open>
  The block of lines of one navigation entry. For an entry without section directory it
  is the one line of the entry's link. For a section it is the section link, then, when
  the section has files, a list with one item for each file that is not the README, in
  the order of \<^verbatim>\<open>get_files_in_section\<close>, and then the closing tag.
\<close>

lemma sidebar_entry_block:
  assumes "sidebar_entry fs current_page (title, url, section_dir) [] = Inr block"
  shows "if section_dir \<noteq> None \<and> section_dir \<noteq> Some []
         then (\<exists>items.
                 block = [section_header title url]
                   @ (if get_files_in_section fs (DOCS_DIR @ [the section_dir]) = [] then []
                      else [''<ul>''] @ items @ [''</ul>''])
                   @ [''</li>''] \<and>
                 list_all2
                   (\<lambda>child item. \<exists>child_url content.
                      md_to_html_path child = Inr child_url \<and> read_text fs child = Inr content \<and>
                      item = child_item current_page child_url
                               (get_title_from_markdown content child))
                   (filter (\<lambda>f. path_name f \<noteq> ''README.md'')
                      (get_files_in_section fs (DOCS_DIR @ [the section_dir]))) items)
         else block = [top_level_item current_page title url]"
proof (cases "section_dir \<noteq> None \<and> section_dir \<noteq> Some []")
  case False
  with assms show ?thesis
    by (auto simp: sidebar_entry_def)
next
  case True
  let ?children = "get_files_in_section fs (DOCS_DIR @ [the section_dir])"
  let ?R = "\<lambda>child item. \<exists>child_url content.
              md_to_html_path child = Inr child_url \<and> read_text fs child = Inr content \<and>
              item = child_item current_page child_url (get_title_from_markdown content child)"
  have "\<exists>items.
          block = [section_header title url]
            @ (if ?children = [] then [] else [''<ul>''] @ items @ [''</ul>'']) @ [''</li>''] \<and>
          list_all2 ?R (filter (\<lambda>f. path_name f \<noteq> ''README.md'') ?children) items"
  proof (cases "?children = []")
    case True
    with assms \<open>section_dir \<noteq> None \<and> section_dir \<noteq> Some []\<close>
    have "block = [section_header title url, ''</li>'']"
      by (auto simp: sidebar_entry_def)
    with True show ?thesis by simp
  next
    case False
    with assms \<open>section_dir \<noteq> None \<and> section_dir \<noteq> Some []\<close> obtain ls where
      ls: "sidebar_children fs current_page ?children [section_header title url, ''<ul>''] = Inr ls"
      and b: "block = ls @ [''</ul>'', ''</li>'']"
      by (auto simp: sidebar_entry_def Let_def split: sum.splits)
    from sidebar_children_items [OF ls] obtain items where
      "ls = [section_header title url, ''<ul>''] @ items" and
      "list_all2 ?R (filter (\<lambda>f. path_name f \<noteq> ''README.md'') ?children) items"
      by blast
    with b False show ?thesis by auto
  qed
  with True show ?thesis by simp
qed

text \<open>
  Claim C7. The sidebar is made of one block of lines for each entry of the navigation
  list, in the order of that list. The block of a section is the section link and, when
  the section has files, a list of child links: one link for each file of the section
  directory that is not the README, and no other; the file names of the files shown are
  in lexicographic order, and the links are in the order of the files.
\<close>

theorem sidebar_children_sorted_without_readme:
  "build_sidebar fs current_page = Inr sidebar \<longrightarrow>
     (\<exists>blocks.
        sidebar = str_join [newline] ([''<ul>''] @ concat blocks @ [''</ul>'']) \<and>
        list_all2
          (\<lambda>entry block.
             case entry of (title, url, section_dir) \<Rightarrow>
               if section_dir \<noteq> None \<and> section_dir \<noteq> Some []
               then (\<exists>shown items.
                       shown = filter (\<lambda>f. path_name f \<noteq> ''README.md'')
                                 (get_files_in_section fs (DOCS_DIR @ [the section_dir])) \<and>
                       ''README.md'' \<notin> set (map path_name shown) \<and>
                       sorted (map path_name shown) \<and>
                       block = [section_header title url]
                         @ (if get_files_in_section fs (DOCS_DIR @ [the section_dir]) = [] then []
                            else [''<ul>''] @ items @ [''</ul>''])
                         @ [''</li>''] \<and>
                       list_all2
                         (\<lambda>child item. \<exists>child_url content.
                            md_to_html_path child = Inr child_url \<and>
                            read_text fs child = Inr content \<and>
                            item = child_item current_page child_url
                                     (get_title_from_markdown content child))
                         shown items)
               else block = [top_level_item current_page title url])
          NAV_STRUCTURE blocks)"
proof
  assume "build_sidebar fs current_page = Inr sidebar"
  then obtain ls where
    ls: "sidebar_entries fs current_page NAV_STRUCTURE [''<ul>''] = Inr ls"
    and s: "sidebar = str_join [newline] (ls @ [''</ul>''])"
    by (auto simp: build_sidebar_def sidebar_for_def split: sum.splits)
  from sidebar_entries_blocks [OF ls] obtain blocks where
    b: "ls = [''<ul>''] @ concat blocks" and
    l: "list_all2 (\<lambda>entry block. sidebar_entry fs current_page entry [] = Inr block)
          NAV_STRUCTURE blocks"
    by blast
  let ?Q = "\<lambda>entry block.
             case entry of (title, url, section_dir) \<Rightarrow>
               if section_dir \<noteq> None \<and> section_dir \<noteq> Some []
               then (\<exists>shown items.
                       shown = filter (\<lambda>f. path_name f \<noteq> ''README.md'')
                                 (get_files_in_section fs (DOCS_DIR @ [the section_dir])) \<and>
                       ''README.md'' \<notin> set (map path_name shown) \<and>
                       sorted (map path_name shown) \<and>
                       block = [section_header title url]
                         @ (if get_files_in_section fs (DOCS_DIR @ [the section_dir]) = [] then []
                            else [''<ul>''] @ items @ [''</ul>''])
                         @ [''</li>''] \<and>
                       list_all2
                         (\<lambda>child item. \<exists>child_url content.
                            md_to_html_path child = Inr child_url \<and>
                            read_text fs child = Inr content \<and>
                            item = child_item current_page child_url
                                     (get_title_from_markdown content child))
                         shown items)
               else block = [top_level_item current_page title url]"
  have "?Q entry block" if "sidebar_entry fs current_page entry [] = Inr block" for entry block
  proof -
    obtain title url section_dir where e: "entry = (title, url, section_dir)"
      by (cases entry) auto
    from sidebar_entry_block [OF that [unfolded e]]
      section_children_sorted [of fs "DOCS_DIR @ [the section_dir]"]
    show ?thesis
      unfolding e by (auto split: if_splits)
  qed
  with l have q: "list_all2 ?Q NAV_STRUCTURE blocks"
    by (rule list_all2_mono)
  from s b have "sidebar = str_join [newline] ([''<ul>''] @ concat blocks @ [''</ul>''])"
    by simp
  with q show "\<exists>blocks.
        sidebar = str_join [newline] ([''<ul>''] @ concat blocks @ [''</ul>'']) \<and>
        list_all2 ?Q NAV_STRUCTURE blocks"
    by (intro exI [of _ blocks] conjI)
qed

theorem sidebar_children_sorted_without_readme_witness:
  "sidebar_children 
     [[''docs'', ''core-guides''] \<mapsto> Dir [''topic-b.md'', ''README.md'', ''notes.txt'', ''topic-a.md''],
       [''docs'', ''core-guides'', ''README.md''] \<mapsto> File ''# Core Guides'',
       [''docs'', ''core-guides'', ''topic-a.md''] \<mapsto> File ''# Topic A'',
       [''docs'', ''core-guides'', ''topic-b.md''] \<mapsto> File ''# Topic B'']
     ''core-guides/topic-a.html'' (get_files_in_section 
     [[''docs'', ''core-guides''] \<mapsto> Dir [''topic-b.md'', ''README.md'', ''notes.txt'', ''topic-a.md''],
       [''docs'', ''core-guides'', ''README.md''] \<mapsto> File ''# Core Guides'',
       [''docs'', ''core-guides'', ''topic-a.md''] \<mapsto> File ''# Topic A'',
       [''docs'', ''core-guides'', ''topic-b.md''] \<mapsto> File ''# Topic B'']
     (DOCS_DIR @ [''core-guides''])) [''<ul>'']
     = Inr [''<ul>'',
        ''<li><a href=\"core-guides/topic-a.html\" class=\"active\">Topic A</a></li>'',
        ''<li><a href=\"core-guides/topic-b.html\">Topic B</a></li>''] \<and>
   build_sidebar 
     [[''docs'', ''core-guides''] \<mapsto> Dir [''topic-b.md'', ''README.md'', ''notes.txt'', ''topic-a.md''],
       [''docs'', ''core-guides'', ''README.md''] \<mapsto> File ''# Core Guides'',
       [''docs'', ''core-guides'', ''topic-a.md''] \<mapsto> File ''# Topic A'',
       [''docs'', ''core-guides'', ''topic-b.md''] \<mapsto> File ''# Topic B'']
     ''core-guides/topic-a.html''
     = Inr (str_join [newline]
       [''<ul>'',
        ''<li><span class=\"section-title\"><a href=\"index.html\">Home</a></span></li>'',
        ''<li><span class=\"section-title\"><a href=\"quickstart.html\">Quickstart</a></span></li>'',
        ''<li><span class=\"section-title\"><a href=\"quick-reference.html\">Quick Reference</a></span></li>'',
        ''<li><span class=\"section-title\"><a href=\"getting-started/index.html\">Getting Started</a></span>'',
        ''</li>'',
        ''<li><span class=\"section-title\"><a href=\"core-guides/index.html\">Core Guides</a></span>'',
        ''<ul>'',
        ''<li><a href=\"core-guides/topic-a.html\" class=\"active\">Topic A</a></li>'',
        ''<li><a href=\"core-guides/topic-b.html\">Topic B</a></li>'',
        ''</ul>'',
        ''</li>'',
        ''<li><span class=\"section-title\"><a href=\"intermediate/index.html\">Intermediate</a></span>'',
        ''</li>'',
        ''<li><span class=\"section-title\"><a href=\"advanced/index.html\">Advanced</a></span>'',
        ''</li>'',
        ''<li><span class=\"section-title\"><a href=\"key-concepts/index.html\">Key Concepts</a></span>'',
        ''</li>'',
        ''<li><span class=\"section-title\"><a href=\"background/index.html\">Background</a></span>'',
        ''</li>'',
        ''<li><span class=\"section-title\"><a href=\"reference/index.html\">Reference</a></span>'',
        ''</li>'',
        ''<li><span class=\"section-title\"><a href=\"troubleshooting/index.html\">Troubleshooting</a></span>'',
        ''</li>'',
        ''</ul>'']) \<and>
   filter (\<lambda>f. path_name f \<noteq> ''README.md'') (get_files_in_section 
     [[''docs'', ''core-guides''] \<mapsto> Dir [''topic-b.md'', ''README.md'', ''notes.txt'', ''topic-a.md''],
       [''docs'', ''core-guides'', ''README.md''] \<mapsto> File ''# Core Guides'',
       [''docs'', ''core-guides'', ''topic-a.md''] \<mapsto> File ''# Topic A'',
       [''docs'', ''core-guides'', ''topic-b.md''] \<mapsto> File ''# Topic B'']
     (DOCS_DIR @ [''core-guides'']))
     = [[''docs'', ''core-guides'', ''topic-a.md''], [''docs'', ''core-guides'', ''topic-b.md'']]"
proof -
  let ?fs = "[[''docs'', ''core-guides''] \<mapsto> Dir [''topic-b.md'', ''README.md'', ''notes.txt'', ''topic-a.md''],
      [''docs'', ''core-guides'', ''README.md''] \<mapsto> File ''# Core Guides'',
      [''docs'', ''core-guides'', ''topic-a.md''] \<mapsto> File ''# Topic A'',
      [''docs'', ''core-guides'', ''topic-b.md''] \<mapsto> File ''# Topic B'']"
  have h1: "sidebar_children ?fs ''core-guides/topic-a.html'' (get_files_in_section ?fs (DOCS_DIR @ [''core-guides''])) [''<ul>'']
     = Inr [''<ul>'',
        ''<li><a href=\"core-guides/topic-a.html\" class=\"active\">Topic A</a></li>'',
        ''<li><a href=\"core-guides/topic-b.html\">Topic B</a></li>'']"
    by code_simp
  have h2: "build_sidebar ?fs ''core-guides/topic-a.html''
     = Inr (str_join [newline]
       [''<ul>'',
        ''<li><span class=\"section-title\"><a href=\"index.html\">Home</a></span></li>'',
        ''<li><span class=\"section-title\"><a href=\"quickstart.html\">Quickstart</a></span></li>'',
        ''<li><span class=\"section-title\"><a href=\"quick-reference.html\">Quick Reference</a></span></li>'',
        ''<li><span class=\"section-title\"><a href=\"getting-started/index.html\">Getting Started</a></span>'',
        ''</li>'',
        ''<li><span class=\"section-title\"><a href=\"core-guides/index.html\">Core Guides</a></span>'',
        ''<ul>'',
        ''<li><a href=\"core-guides/topic-a.html\" class=\"active\">Topic A</a></li>'',
        ''<li><a href=\"core-guides/topic-b.html\">Topic B</a></li>'',
        ''</ul>'',
        ''</li>'',
        ''<li><span class=\"section-title\"><a href=\"intermediate/index.html\">Intermediate</a></span>'',
        ''</li>'',
        ''<li><span class=\"section-title\"><a href=\"advanced/index.html\">Advanced</a></span>'',
        ''</li>'',
        ''<li><span class=\"section-title\"><a href=\"key-concepts/index.html\">Key Concepts</a></span>'',
        ''</li>'',
        ''<li><span class=\"section-title\"><a href=\"background/index.html\">Background</a></span>'',
        ''</li>'',
        ''<li><span class=\"section-title\"><a href=\"reference/index.html\">Reference</a></span>'',
        ''</li>'',
        ''<li><span class=\"section-title\"><a href=\"troubleshooting/index.html\">Troubleshooting</a></span>'',
        ''</li>'',
        ''</ul>''])"
    by code_simp
  have c: "filter (\<lambda>f. path_name f \<noteq> ''README.md'') (get_files_in_section ?fs (DOCS_DIR @ [''core-guides'']))
     = [[''docs'', ''core-guides'', ''topic-a.md''], [''docs'', ''core-guides'', ''topic-b.md'']]"
    by code_simp
  from sidebar_children_sorted_without_readme
    [of ?fs "''core-guides/topic-a.html''" _]
    h1 h2 c
  show ?thesis by simp
qed

text \<open>
  For each section of the navigation list, the title made from the directory name is the
  configured title.
\<close>

lemma humanize_sections:
  "humanize ''getting-started'' = ''Getting Started''"
  "humanize ''core-guides'' = ''Core Guides''"
  "humanize ''intermediate'' = ''Intermediate''"
  "humanize ''advanced'' = ''Advanced''"
  "humanize ''key-concepts'' = ''Key Concepts''"
  "humanize ''background'' = ''Background''"
  "humanize ''reference'' = ''Reference''"
  "humanize ''troubleshooting'' = ''Troubleshooting''"
  by code_simp+

lemma nav_section_title:
  "(title, url, Some d) \<in> set NAV_STRUCTURE \<Longrightarrow> humanize d = title"
  by (auto simp: NAV_STRUCTURE_def humanize_sections)

text \<open>
  Claim C6, as amended. In a configured section with directory \<open>d\<close> and title
  \<open>title\<close>: the breadcrumb of the README of the section directory is the one crumb
  \<open>title\<close>, without link. The breadcrumb of a page of the section that is not named
  \<^verbatim>\<open>README.md\<close>, in the section directory or below it, is a link labelled \<open>title\<close>
  whose reference is the relative \<^verbatim>\<open>index.html\<close>, and then the page's own title,
  taken from the text of the page. The breadcrumb of a page directly under the
  documentation root is empty.
\<close>

theorem build_breadcrumb_cases:
  assumes "(title, url, Some d) \<in> set NAV_STRUCTURE"
  shows "build_breadcrumb fs (DOCS_DIR @ [d, ''README.md'']) = Inr (''<li>'' @ title @ ''</li>'') \<and>
         (name \<noteq> ''README.md'' \<and> read_text fs (DOCS_DIR @ d # sub @ [name]) = Inr content \<longrightarrow>
            build_breadcrumb fs (DOCS_DIR @ d # sub @ [name])
              = Inr (''<li><a href=\"index.html\">'' @ title @ ''</a></li><li>''
                     @ get_title_from_markdown content (DOCS_DIR @ d # sub @ [name]) @ ''</li>'')) \<and>
         build_breadcrumb fs (DOCS_DIR @ [name]) = Inr []"
proof -
  have t: "humanize d = title"
    using assms by (rule nav_section_title)
  have 1: "build_breadcrumb fs (DOCS_DIR @ [d, ''README.md'']) = Inr (''<li>'' @ title @ ''</li>'')"
    by (simp add: build_breadcrumb_def relative_to_docs t)
  have 2: "name \<noteq> ''README.md'' \<and> read_text fs (DOCS_DIR @ d # sub @ [name]) = Inr content \<longrightarrow>
            build_breadcrumb fs (DOCS_DIR @ d # sub @ [name])
              = Inr (''<li><a href=\"index.html\">'' @ title @ ''</a></li><li>''
                     @ get_title_from_markdown content (DOCS_DIR @ d # sub @ [name]) @ ''</li>'')"
    by (simp add: build_breadcrumb_def relative_to_docs t)
  have 3: "build_breadcrumb fs (DOCS_DIR @ [name]) = Inr []"
    by (simp add: build_breadcrumb_def relative_to_docs)
  from 1 2 3 show ?thesis by blast
qed

theorem build_breadcrumb_cases_witness:
  "(''Getting Started'', ''getting-started/index.html'', Some ''getting-started'') \<in> set NAV_STRUCTURE \<and>
   ''install.md'' \<noteq> ''README.md'' \<and>
   read_text [[''docs'', ''getting-started'', ''install.md''] \<mapsto> File ''# Install'']
     [''docs'', ''getting-started'', ''install.md''] = Inr ''# Install'' \<and>
   build_breadcrumb [[''docs'', ''getting-started'', ''install.md''] \<mapsto> File ''# Install'']
     [''docs'', ''getting-started'', ''install.md'']
     = Inr ''<li><a href=\"index.html\">Getting Started</a></li><li>Install</li>'' \<and>
   build_breadcrumb [[''docs'', ''getting-started'', ''install.md''] \<mapsto> File ''# Install'']
     [''docs'', ''getting-started'', ''README.md'']
     = Inr ''<li>Getting Started</li>''"
proof -
  have n: "(''Getting Started'', ''getting-started/index.html'', Some ''getting-started'') \<in> set NAV_STRUCTURE"
    by (simp add: NAV_STRUCTURE_def)
  have r: "read_text [[''docs'', ''getting-started'', ''install.md''] \<mapsto> File ''# Install'']
     [''docs'', ''getting-started'', ''install.md''] = Inr ''# Install''"
    by (simp add: read_text_def)
  have g: "get_title_from_markdown ''# Install'' [''docs'', ''getting-started'', ''install.md''] = ''Install''"
    by code_simp
  from build_breadcrumb_cases
    [OF n, of "[[''docs'', ''getting-started'', ''install.md''] \<mapsto> File ''# Install'']"
       "''install.md''" "[]" "''# Install''"]
    n r g
  show ?thesis by (simp add: DOCS_DIR_def)
qed

text \<open>
  The claim as first stated fails in two ways. The link of the breadcrumb is written as
  \<^verbatim>\<open>index.html\<close>, not as \<^verbatim>\<open>getting-started/index.html\<close>. And a README in a directory
  below the section directory, which is not the README of the section, has the single
  crumb without link all the same.
\<close>

theorem build_breadcrumb_link_counterexample:
  "build_breadcrumb [[''docs'', ''getting-started'', ''install.md''] \<mapsto> File ''# Install'']
     [''docs'', ''getting-started'', ''install.md'']
     = Inr ''<li><a href=\"index.html\">Getting Started</a></li><li>Install</li>'' \<and>
   build_breadcrumb [[''docs'', ''getting-started'', ''install.md''] \<mapsto> File ''# Install'']
     [''docs'', ''getting-started'', ''install.md'']
     \<noteq> Inr ''<li><a href=\"getting-started/index.html\">Getting Started</a></li><li>Install</li>'' \<and>
   build_breadcrumb [[''docs'', ''getting-started'', ''sub'', ''README.md''] \<mapsto> File ''# Sub'']
     [''docs'', ''getting-started'', ''sub'', ''README.md'']
     = Inr ''<li>Getting Started</li>''"
  by code_simp

section \<open>Properties of the Title Extractor\<close>









section \<open>Properties of the Link Rewriter\<close>


















end
